theory Spec2Isabelle
  imports Complex_Main
begin

section \<open>Strings of the typing simulator\<close>

text \<open>
  A JavaScript string is a sequence of UTF-16 code units. The model takes the code units
  of the Latin-1 range (0 to 255), which are the values of HOL's \<^typ>\<open>char\<close>; this
  range holds every character that \<open>isKeyAvailable\<close> names, the no-break space
  (code unit \<open>0xA0\<close>) included. The handlers below never look at a code unit except to compare
  it with another one, to change its case, or to ask whether it is white space.

  \<open>\s\<close>, \<open>trim\<close> and \<open>trimEnd\<close> share one notion of white space; within Latin-1
  it is TAB, LF, VT, FF, CR, SPACE and NBSP.
\<close>

definition isWhiteSpace :: "char \<Rightarrow> bool" where
  "isWhiteSpace c \<longleftrightarrow>
     c = CHR 0x09 \<or> c = CHR 0x0A \<or> c = CHR 0x0B \<or> c = CHR 0x0C \<or> c = CHR 0x0D
     \<or> c = CHR '' '' \<or> c = CHR 0xA0"

definition trimStart :: "string \<Rightarrow> string" where
  "trimStart s = dropWhile isWhiteSpace s"

definition trimEnd :: "string \<Rightarrow> string" where
  "trimEnd s = rev (dropWhile isWhiteSpace (rev s))"

definition trim :: "string \<Rightarrow> string" where
  "trim s = trimEnd (trimStart s)"

text \<open>
  \<open>String.prototype.toLowerCase\<close> on Latin-1: the letters A to Z and the accented
  capitals \<open>0xC0\<close> to \<open>0xDE\<close> (but not the multiplication sign \<open>0xD7\<close>) move up
  by 32; everything else stays.
\<close>

definition toLowerCase_char :: "char \<Rightarrow> char" where
  "toLowerCase_char c =
     (let n = (of_char c :: nat)
      in if (65 \<le> n \<and> n \<le> 90) \<or> (192 \<le> n \<and> n \<le> 222 \<and> n \<noteq> 215)
         then char_of (n + 32) else c)"

definition toLowerCase :: "string \<Rightarrow> string" where
  "toLowerCase s = map toLowerCase_char s"

section \<open>The state of the module\<close>

text \<open>
  The module-level variables of \<open>typing-simulator.js\<close> that the handlers read and write.
  \<open>charStates\<close> is a JavaScript array: writing past its end extends it, leaving holes
  that read as \<open>undefined\<close>; \<open>Hole\<close> is such an entry. \<open>startTime\<close> is \<open>null\<close> or
  a value of \<open>Date.now()\<close>, in milliseconds. \<open>hiddenInputValue\<close> is the value of the
  textarea, which \<open>handleInput\<close> writes back through \<open>e.target.value\<close>.
\<close>

datatype charState = Pending | Correct | Incorrect | Hole

record state =
  originalText :: string
  typedText :: string
  charStates :: "charState list"
  startTime :: "int option"
  totalErrors :: nat
  totalInputs :: nat
  availableKeysSet :: "string set"
  hiddenInputValue :: string

definition initial :: state where
  "initial = \<lparr> originalText = [], typedText = [], charStates = [], startTime = None,
     totalErrors = 0, totalInputs = 0, availableKeysSet = {}, hiddenInputValue = [] \<rparr>"

text \<open>\<open>loadConfig\<close>: the configured keys, lower-cased; no keys means every key.\<close>

definition loadConfig :: "string list \<Rightarrow> state \<Rightarrow> state" where
  "loadConfig availableKeys st =
     (if length availableKeys > 0
      then st\<lparr>availableKeysSet := set (map toLowerCase availableKeys)\<rparr>
      else st\<lparr>availableKeysSet := {}\<rparr>)"

text \<open>\<open>loadText\<close>: the fetched text without its trailing white space, every position pending.\<close>

definition loadText :: "string \<Rightarrow> state \<Rightarrow> state" where
  "loadText text st =
     st\<lparr>originalText := trimEnd text,
        charStates := replicate (length (trimEnd text)) Pending\<rparr>"

text \<open>An assignment \<open>a[i] = v\<close> to a JavaScript array.\<close>

definition arraySet :: "charState list \<Rightarrow> nat \<Rightarrow> charState \<Rightarrow> charState list" where
  "arraySet a i v =
     (if i < length a then a[i := v] else a @ replicate (i - length a) Hole @ [v])"

section \<open>Key availability\<close>

definition isKeyAvailable :: "string set \<Rightarrow> string \<Rightarrow> bool" where
  "isKeyAvailable keys key =
     (let keyLower = toLowerCase key
      in if key = '' '' \<or> key = [CHR 0xA0] \<or> key = '','' \<or> key = ''.'' \<or>
            key = ''Backspace'' \<or> key = [CHR 0x08] \<or> key = ''Enter'' \<or> key = ''Return'' \<or>
            key = [CHR 0x0A] \<or> key = [CHR 0x0D] \<or>
            keyLower = ''space'' \<or> keyLower = ''comma'' \<or> keyLower = ''dot'' \<or>
            keyLower = ''backspace'' \<or> keyLower = ''enter''
         then True
         else if keys = {} then True
         else if key = ''Tab'' \<or> keyLower = ''tab'' then ''tab'' \<in> keys
         else if key = [CHR 0x09] then ''tab'' \<in> keys
         else (let normalizedKey = (if length key = 1 then toLowerCase key else keyLower)
               in normalizedKey \<in> keys))"

section \<open>The input handler\<close>

text \<open>
  The loop of \<open>handleInput\<close> over the newly typed characters \<open>newChars\<close>; \<open>charIndex\<close>
  is \<open>typedLength + i\<close>. It stops at the end of the reference text. Highlighting the key
  on the on-screen keyboard changes no variable of the model.
\<close>

fun typeForward :: "string \<Rightarrow> nat \<Rightarrow> state \<Rightarrow> state" where
  "typeForward [] charIndex st = st"
| "typeForward (typedChar # newChars) charIndex st =
     (if charIndex \<ge> length (originalText st) then st
      else
        let expectedChar = originalText st ! charIndex;
            st1 = st\<lparr>totalInputs := totalInputs st + 1\<rparr>;
            isError = (typedChar \<noteq> expectedChar);
            st2 = (if isError
                   then st1\<lparr>charStates := arraySet (charStates st1) charIndex Incorrect,
                            totalErrors := totalErrors st1 + 1\<rparr>
                   else st1\<lparr>charStates := arraySet (charStates st1) charIndex Correct\<rparr>)
        in typeForward newChars (Suc charIndex) st2)"

text \<open>
  The loop of the backspace branch: \<open>for (i = inputLength; i < originalText.length; i++)\<close>,
  which writes only inside the array.
\<close>

function resetFrom :: "nat \<Rightarrow> nat \<Rightarrow> charState list \<Rightarrow> charState list" where
  "resetFrom i n a =
     (if i < n then resetFrom (Suc i) n (if i < length a then a[i := Pending] else a) else a)"
  by pat_completeness auto
termination
  by (relation "measure (\<lambda>(i, n, a). n - i)") auto

declare resetFrom.simps [simp del]

text \<open>
  \<open>handleInput\<close>, with \<open>now\<close> the value of \<open>Date.now()\<close> and \<open>v\<close> the value of the
  textarea when the event fires. The input is filtered by the configured keys, the clock
  starts on the first non-empty input, the input is cut at the length of the reference
  text, and the two branches compare lengths only.
\<close>

definition filterInput :: "string set \<Rightarrow> string \<Rightarrow> string" where
  "filterInput keys v =
     (if keys \<noteq> {} then filter (\<lambda>c. isKeyAvailable keys [c]) v else v)"

definition clampInput :: "string \<Rightarrow> string \<Rightarrow> string" where
  "clampInput original input =
     (if length input > length original then take (length original) input else input)"

definition handleInput :: "int \<Rightarrow> string \<Rightarrow> state \<Rightarrow> state" where
  "handleInput now v st =
     (let filtered = filterInput (availableKeysSet st) v;
          st1 = st\<lparr>hiddenInputValue := filtered\<rparr>;
          st2 = (if startTime st1 = None \<and> length filtered > 0
                 then st1\<lparr>startTime := Some now\<rparr> else st1);
          input = clampInput (originalText st2) filtered;
          st3 = st2\<lparr>hiddenInputValue := input\<rparr>;
          inputLength = length input;
          typedLength = length (typedText st3)
      in if inputLength > typedLength
         then (typeForward (drop typedLength input) typedLength st3)\<lparr>typedText := input\<rparr>
         else if inputLength < typedLength
         then st3\<lparr>typedText := input,
                  charStates := resetFrom inputLength (length (originalText st3)) (charStates st3)\<rparr>
         else st3)"

definition restart :: "state \<Rightarrow> state" where
  "restart st =
     st\<lparr>typedText := [],
        charStates := replicate (length (charStates st)) Pending,
        hiddenInputValue := [],
        startTime := None, totalErrors := 0, totalInputs := 0\<rparr>"

text \<open>Sessions: the events that reach the module after the text has been loaded.\<close>

datatype event = Input int string | Restart

fun step :: "event \<Rightarrow> state \<Rightarrow> state" where
  "step (Input now v) st = handleInput now v st"
| "step Restart st = restart st"

fun run :: "event list \<Rightarrow> state \<Rightarrow> state" where
  "run [] st = st"
| "run (e # es) st = run es (step e st)"

text \<open>A sequence of input events only (no restart), each with its time and textarea value.\<close>

definition inputs :: "(int \<times> string) list \<Rightarrow> event list" where
  "inputs ins = map (\<lambda>(now, v). Input now v) ins"

definition session :: "string list \<Rightarrow> string \<Rightarrow> state" where
  "session availableKeys text = loadText text (loadConfig availableKeys initial)"

section \<open>Rendering and completion\<close>

text \<open>
  \<open>renderText\<close> either shows the completion screen or draws the reference text, one
  class per character. Completion is detected when the typed text and the reference text
  have the same length once their trailing white space is removed, whether or not the
  typed characters are right.
\<close>

datatype view = CompletionScreen | TypingText "charState list"

definition charClass :: "state \<Rightarrow> nat \<Rightarrow> charState" where
  "charClass st i =
     (if i < length (typedText st)
      then (if i < length (charStates st) \<and> charStates st ! i = Incorrect
            then Incorrect else Correct)
      else Pending)"

definition renderText :: "state \<Rightarrow> view" where
  "renderText st =
     (let typedTrimmed = trimEnd (typedText st);
          originalTrimmed = trimEnd (originalText st)
      in if length typedTrimmed = length originalTrimmed then CompletionScreen
         else TypingText (map (charClass st) [0 ..< length (originalText st)]))"

text \<open>
  The completion predicate in the words of the specification. The right-trimmed length of
  a text is the number of characters up to and including its last character that is not
  white space; it is computed here from the text itself, without \<open>trimEnd\<close>.
\<close>

fun rightTrimmedLength :: "string \<Rightarrow> nat" where
  "rightTrimmedLength [] = 0"
| "rightTrimmedLength (c # cs) =
     (if rightTrimmedLength cs = 0 \<and> isWhiteSpace c then 0 else Suc (rightTrimmedLength cs))"

definition isComplete :: "string \<Rightarrow> string \<Rightarrow> bool" where
  "isComplete reference typed \<longleftrightarrow> rightTrimmedLength typed = rightTrimmedLength reference"

section \<open>Statistics\<close>

text \<open>
  JavaScript numbers are IEEE doubles. The counters are small integers, which doubles hold
  exactly; the derived quantities (seconds, accuracy, words per minute) are modelled as
  real numbers, so the formulas are those of the source with exact division.
\<close>

text \<open>
  \<open>s.split(/\s+/)\<close>: the pieces of \<open>s\<close> between maximal runs of white space. A run at
  the start or at the end of \<open>s\<close> yields an empty piece, and the empty string yields one
  empty piece. \<open>cur\<close> holds the characters of the current piece.
\<close>

function splitWhitespaceFrom :: "string \<Rightarrow> string \<Rightarrow> string list" where
  "splitWhitespaceFrom cur [] = [cur]"
| "splitWhitespaceFrom cur (c # cs) =
     (if isWhiteSpace c then cur # splitWhitespaceFrom [] (dropWhile isWhiteSpace cs)
      else splitWhitespaceFrom (cur @ [c]) cs)"
  by pat_completeness auto
termination
  by (relation "measure (\<lambda>(cur, s). length s)")
     (auto simp: length_dropWhile_le less_Suc_eq_le)

definition splitWhitespace :: "string \<Rightarrow> string list" where
  "splitWhitespace s = splitWhitespaceFrom [] s"

text \<open>The loop that counts the positions that are incorrect now.\<close>

primrec countIncorrect :: "charState list \<Rightarrow> nat" where
  "countIncorrect [] = 0"
| "countIncorrect (s # ss) = (if s = Incorrect then 1 else 0) + countIncorrect ss"

record chars =
  chars_typed :: nat
  chars_total :: nat

record realtimeStats =
  speed :: real
  accuracy :: real
  time :: real
  errors :: nat
  errorsLeft :: nat
  chars :: chars

definition calculateRealtimeStats :: "int \<Rightarrow> state \<Rightarrow> realtimeStats" where
  "calculateRealtimeStats now st =
     (let charsTyped = length (typedText st);
          charsTotal = length (originalText st)
      in case startTime st of
           None \<Rightarrow>
             \<lparr>speed = 0, accuracy = 0, time = 0, errors = 0, errorsLeft = 0,
              chars = \<lparr>chars_typed = charsTyped, chars_total = charsTotal\<rparr>\<rparr>
         | Some start \<Rightarrow>
             (let totalTimeSeconds = real_of_int (now - start) / 1000;
                  totalTimeMinutes = totalTimeSeconds / 60;
                  errorsLeft = countIncorrect (charStates st);
                  correctInputs = real (totalInputs st) - real (totalErrors st);
                  accuracy = (if totalInputs st > 0
                              then (correctInputs / real (totalInputs st)) * 100 else 0);
                  wordsTyped = length (filter (\<lambda>word. length word > 0)
                                 (splitWhitespace (trim (originalText st))));
                  wpm = (if totalTimeMinutes > 0
                         then real wordsTyped / totalTimeMinutes else 0)
              in \<lparr>speed = wpm, accuracy = accuracy, time = totalTimeSeconds,
                  errors = totalErrors st, errorsLeft = errorsLeft,
                  chars = \<lparr>chars_typed = charsTyped, chars_total = charsTotal\<rparr>\<rparr>))"

text \<open>The final statistics; \<open>None\<close> is the \<open>null\<close> returned when no typing has started.\<close>

record statistics =
  stats_totalErrors :: nat
  stats_errorsLeft :: nat
  stats_totalTime :: real
  stats_accuracy :: real
  stats_speed :: real

definition calculateStatistics :: "int \<Rightarrow> state \<Rightarrow> statistics option" where
  "calculateStatistics now st =
     (case startTime st of
        None \<Rightarrow> None
      | Some start \<Rightarrow>
          (let endTime = now;
               totalTimeSeconds = real_of_int (endTime - start) / 1000;
               totalTimeMinutes = totalTimeSeconds / 60;
               errorsLeft = countIncorrect (charStates st);
               correctInputs = real (totalInputs st) - real (totalErrors st);
               accuracy = (if totalInputs st > 0
                           then (correctInputs / real (totalInputs st)) * 100 else 0);
               wordsTyped = length (filter (\<lambda>word. length word > 0)
                              (splitWhitespace (trim (originalText st))));
               wpm = (if totalTimeMinutes > 0
                      then real wordsTyped / totalTimeMinutes else 0)
           in Some \<lparr>stats_totalErrors = totalErrors st,
                    stats_errorsLeft = errorsLeft,
                    stats_totalTime = totalTimeSeconds,
                    stats_accuracy = accuracy,
                    stats_speed = wpm\<rparr>))"

section \<open>The saved report\<close>

text \<open>
  \<open>saveStatistics\<close> builds the text of the report with a template literal: the two
  counters are printed as numbers, the three measurements with \<open>toFixed(2)\<close>.

  Printing a number: a non-negative integer below \<open>10^21\<close> is printed as its decimal
  digits. From \<open>10^21\<close> on, JavaScript prints the exponent form: the first digit, a period
  and the further digits if there are any, \<open>e+\<close> and the exponent. The model prints the
  digits of the exact value without its trailing zeros; JavaScript prints the shortest
  digits that denote the same double, which are the same digits whenever the exact value
  has at most 15 of them, as \<open>10^21\<close> has.
\<close>

definition digitChar :: "nat \<Rightarrow> char" where
  "digitChar d = ''0123456789'' ! d"

function digitsOf :: "nat \<Rightarrow> string" where
  "digitsOf n = (if n < 10 then [digitChar n] else digitsOf (n div 10) @ [digitChar (n mod 10)])"
  by pat_completeness auto
termination
  by (relation "measure (\<lambda>n. n)") auto

declare digitsOf.simps [simp del]

definition stripTrailingZeros :: "string \<Rightarrow> string" where
  "stripTrailingZeros s = rev (dropWhile (\<lambda>c. c = CHR ''0'') (rev s))"

definition exponentForm :: "nat \<Rightarrow> string" where
  "exponentForm n =
     (let m = digitsOf n;
          s = stripTrailingZeros m;
          e = digitsOf (length m - 1)
      in if length s = 1 then s @ ''e+'' @ e
         else take 1 s @ ''.'' @ drop 1 s @ ''e+'' @ e)"

definition numberToString :: "nat \<Rightarrow> string" where
  "numberToString n = (if n < 10 ^ 21 then digitsOf n else exponentForm n)"

text \<open>
  \<open>x.toFixed(2)\<close>, following the language definition: the sign, then for \<open>x\<close> from
  \<open>10^21\<close> on the number as it is printed, and otherwise the integer \<open>n\<close> nearest to
  \<open>100 * x\<close> (the larger one of two), its digits padded with zeros to three at least, and
  a period before the last two. The definition works on the exact value of the double.
\<close>

definition toFixed2 :: "real \<Rightarrow> string" where
  "toFixed2 x0 =
     (let s = (if x0 < 0 then ''-'' else []);
          x = (if x0 < 0 then - x0 else x0);
          m = (if x \<ge> 10 ^ 21 then numberToString (nat \<lfloor>x\<rfloor>)
               else
                 let n = nat \<lfloor>x * 100 + 1 / 2\<rfloor>;
                     m = (if n = 0 then ''0'' else digitsOf n);
                     k = length m;
                     m = (if k \<le> 2 then replicate (2 + 1 - k) (CHR ''0'') @ m else m);
                     k = (if k \<le> 2 then 2 + 1 else k);
                     a = take (k - 2) m;
                     b = drop (k - 2) m
                 in a @ ''.'' @ b)
      in s @ m)"

definition newline :: char where
  "newline = CHR 0x0A"


section \<open>Reading the report\<close>

text \<open>\<open>statsText.split('\n')\<close>: the pieces between line feeds; the empty text is one empty line.\<close>

fun splitLines :: "string \<Rightarrow> string list" where
  "splitLines [] = [[]]"
| "splitLines (c # cs) =
     (if c = newline then [] # splitLines cs
      else (case splitLines cs of l # ls \<Rightarrow> (c # l) # ls | [] \<Rightarrow> [[c]]))"

text \<open>\<open>line.includes(label)\<close>: the label occurs at some position of the line.\<close>

definition startsWith :: "string \<Rightarrow> string \<Rightarrow> bool" where
  "startsWith s p \<longleftrightarrow> take (length p) s = p"

fun stringIncludes :: "string \<Rightarrow> string \<Rightarrow> bool" where
  "stringIncludes [] label = (label = [])"
| "stringIncludes (c # cs) label = (startsWith (c # cs) label \<or> stringIncludes cs label)"

definition isDigit :: "char \<Rightarrow> bool" where
  "isDigit c \<longleftrightarrow> c \<in> set ''0123456789''"

definition isDigitOrDot :: "char \<Rightarrow> bool" where
  "isDigitOrDot c \<longleftrightarrow> isDigit c \<or> c = CHR ''.''"

text \<open>
  The patterns of \<open>parseStatsText\<close>. \<open>line.match(/LABEL\s*(\d+)/)\<close> looks for the
  leftmost position at which the label stands, followed by white space and at least one
  digit, and captures the digits. The patterns for the total time and the speed,
  \<open>/LABEL\s*([\d.]+)\s*UNIT/\<close>, capture digits and periods that are followed by white
  space and the unit; the pattern for the accuracy, \<open>/Accuracy:\s*([\d.]+)%/\<close>, allows
  no white space between the captured text and the percent sign. \<open>spaced\<close> tells
  whether the pattern has \<open>\s*\<close> before the unit. Every repetition takes as much as it
  can, and giving some of it back never helps: what follows \<open>\s*\<close> is never white space,
  and no unit starts with a digit or a period. So at each position there is at most one
  way to match, the one computed here.
\<close>

definition matchIntAt :: "string \<Rightarrow> string \<Rightarrow> string option" where
  "matchIntAt label s =
     (if startsWith s label
      then (let r = dropWhile isWhiteSpace (drop (length label) s);
                ds = takeWhile isDigit r
            in if ds \<noteq> [] then Some ds else None)
      else None)"

fun matchInt :: "string \<Rightarrow> string \<Rightarrow> string option" where
  "matchInt label [] = matchIntAt label []"
| "matchInt label (c # cs) =
     (case matchIntAt label (c # cs) of Some ds \<Rightarrow> Some ds | None \<Rightarrow> matchInt label cs)"

definition matchFloatAt :: "string \<Rightarrow> bool \<Rightarrow> string \<Rightarrow> string \<Rightarrow> string option" where
  "matchFloatAt label spaced unit s =
     (if startsWith s label
      then (let r1 = dropWhile isWhiteSpace (drop (length label) s);
                g = takeWhile isDigitOrDot r1;
                r2 = dropWhile isDigitOrDot r1;
                r3 = (if spaced then dropWhile isWhiteSpace r2 else r2)
            in if g \<noteq> [] \<and> startsWith r3 unit then Some g else None)
      else None)"

fun matchFloat :: "string \<Rightarrow> bool \<Rightarrow> string \<Rightarrow> string \<Rightarrow> string option" where
  "matchFloat label spaced unit [] = matchFloatAt label spaced unit []"
| "matchFloat label spaced unit (c # cs) =
     (case matchFloatAt label spaced unit (c # cs) of
        Some g \<Rightarrow> Some g
      | None \<Rightarrow> matchFloat label spaced unit cs)"

text \<open>
  \<open>parseInt(digits, 10)\<close> on a string of digits, and \<open>parseFloat\<close> on a string of digits
  and periods, which is all that the patterns capture: the digits before the first
  period and the digits that follow it, \<open>NaN\<close> if there is no digit in either place.
  The value is the number that the decimal denotes; JavaScript rounds it to a double.
\<close>

definition digitValue :: "char \<Rightarrow> nat" where
  "digitValue c = of_char c - 48"

definition decimalValue :: "string \<Rightarrow> nat" where
  "decimalValue s = foldl (\<lambda>acc c. acc * 10 + digitValue c) 0 s"

definition parseInt :: "string \<Rightarrow> nat" where
  "parseInt ds = decimalValue ds"

datatype number = NaN | Num real

definition parseFloat :: "string \<Rightarrow> number" where
  "parseFloat s =
     (let ip = takeWhile isDigit s;
          r = dropWhile isDigit s;
          fp = (case r of c # cs \<Rightarrow> (if c = CHR ''.'' then takeWhile isDigit cs else [])
                | [] \<Rightarrow> [])
      in if ip = [] \<and> fp = [] then NaN
         else Num (real (decimalValue ip) + real (decimalValue fp) / 10 ^ length fp))"

text \<open>The object that \<open>parseStatsText\<close> fills; a field is \<open>None\<close> until a line sets it.\<close>

record parsedStats =
  parsed_totalErrors :: "nat option"
  parsed_errorsLeft :: "nat option"
  parsed_totalTime :: "number option"
  parsed_accuracy :: "number option"
  parsed_speed :: "number option"

definition parseLine :: "string \<Rightarrow> parsedStats \<Rightarrow> parsedStats" where
  "parseLine line stats =
     (if stringIncludes line ''Total Errors Made:''
      then (case matchInt ''Total Errors Made:'' line of
              Some ds \<Rightarrow> stats\<lparr>parsed_totalErrors := Some (parseInt ds)\<rparr>
            | None \<Rightarrow> stats)
      else if stringIncludes line ''Errors Left (Unfixed):''
      then (case matchInt ''Errors Left (Unfixed):'' line of
              Some ds \<Rightarrow> stats\<lparr>parsed_errorsLeft := Some (parseInt ds)\<rparr>
            | None \<Rightarrow> stats)
      else if stringIncludes line ''Total Time:''
      then (case matchFloat ''Total Time:'' True ''seconds'' line of
              Some g \<Rightarrow> stats\<lparr>parsed_totalTime := Some (parseFloat g)\<rparr>
            | None \<Rightarrow> stats)
      else if stringIncludes line ''Accuracy:''
      then (case matchFloat ''Accuracy:'' False ''%'' line of
              Some g \<Rightarrow> stats\<lparr>parsed_accuracy := Some (parseFloat g)\<rparr>
            | None \<Rightarrow> stats)
      else if stringIncludes line ''Speed:''
      then (case matchFloat ''Speed:'' True ''words per minute'' line of
              Some g \<Rightarrow> stats\<lparr>parsed_speed := Some (parseFloat g)\<rparr>
            | None \<Rightarrow> stats)
      else stats)"




text \<open>
  The word count in the words of the specification: the white-space-delimited non-empty
  tokens of a text, read off from left to right.
\<close>

function tokens :: "string \<Rightarrow> string list" where
  "tokens s =
     (case dropWhile isWhiteSpace s of
        [] \<Rightarrow> []
      | c # cs \<Rightarrow>
          takeWhile (\<lambda>x. \<not> isWhiteSpace x) (c # cs)
            # tokens (dropWhile (\<lambda>x. \<not> isWhiteSpace x) (c # cs)))"
  by pat_completeness auto
termination
proof (relation "measure length", goal_cases)
  case 1
  show ?case by simp
next
  case (2 s c cs)
  have "\<not> isWhiteSpace c"
    using 2 hd_dropWhile [of isWhiteSpace s] by force
  then have "length (dropWhile (\<lambda>x. \<not> isWhiteSpace x) (c # cs)) \<le> length cs"
    by (simp add: length_dropWhile_le)
  moreover have "length (c # cs) \<le> length s"
    using 2 length_dropWhile_le [of isWhiteSpace s] by simp
  ultimately show ?case by simp
qed

declare tokens.simps [simp del]

section \<open>Auxiliary notions for the proofs\<close>

text \<open>The state that the forward loop writes at a position.\<close>

definition stateOf :: "char \<Rightarrow> char \<Rightarrow> charState" where
  "stateOf t e = (if t \<noteq> e then Incorrect else Correct)"

text \<open>
  The shape of the state that every session keeps: one entry of \<open>charStates\<close> for each
  character of the reference text, the typed text no longer than the reference text, no
  pending entry below the length of the typed text and only pending entries from there on.
\<close>

definition wellFormed :: "state \<Rightarrow> bool" where
  "wellFormed st \<longleftrightarrow>
     length (charStates st) = length (originalText st) \<and>
     length (typedText st) \<le> length (originalText st) \<and>
     Pending \<notin> set (take (length (typedText st)) (charStates st)) \<and>
     drop (length (typedText st)) (charStates st) =
       replicate (length (originalText st) - length (typedText st)) Pending"

section \<open>The loops of the input handler\<close>

lemma typeForward_fields [simp]:
  "originalText (typeForward new k st) = originalText st"
  "typedText (typeForward new k st) = typedText st"
  "startTime (typeForward new k st) = startTime st"
  "availableKeysSet (typeForward new k st) = availableKeysSet st"
  "hiddenInputValue (typeForward new k st) = hiddenInputValue st"
  by (induction new arbitrary: k st; simp add: Let_def)+

lemma typeForward_charStates:
  "length (charStates st) = length (originalText st) \<Longrightarrow>
   charStates (typeForward new k st) =
     take k (charStates st) @ map (\<lambda>(t, e). stateOf t e) (zip new (drop k (originalText st)))
       @ drop (k + length new) (charStates st)"
proof (induction new arbitrary: k st)
  case Nil
  then show ?case by simp
next
  case (Cons c new)
  show ?case
  proof (cases "k < length (originalText st)")
    case False
    with Cons.prems show ?thesis by simp
  next
    case True
    have d: "drop k (originalText st) = originalText st ! k # drop (Suc k) (originalText st)"
      using True by (simp add: Cons_nth_drop_Suc)
    have t: "take (Suc k) ((charStates st)[k := x]) = take k (charStates st) @ [x]" for x
      using True Cons.prems by (simp add: take_Suc_conv_app_nth)
    show ?thesis
      using True Cons.prems
      by (simp add: Let_def Cons.IH arraySet_def d t stateOf_def)
  qed
qed

lemma typeForward_totalInputs:
  "totalInputs (typeForward new k st) = totalInputs st + min (length new) (length (originalText st) - k)"
  by (induction new arbitrary: k st) (auto simp: Let_def)

lemma typeForward_totalErrors:
  "totalErrors (typeForward new k st) =
     totalErrors st + length (filter (\<lambda>(t, e). t \<noteq> e) (zip new (drop k (originalText st))))"
proof (induction new arbitrary: k st)
  case Nil
  then show ?case by simp
next
  case (Cons c new)
  show ?case
  proof (cases "k < length (originalText st)")
    case False
    then show ?thesis by simp
  next
    case True
    have d: "drop k (originalText st) = originalText st ! k # drop (Suc k) (originalText st)"
      using True by (simp add: Cons_nth_drop_Suc)
    show ?thesis
      using True by (simp add: Let_def Cons.IH d)
  qed
qed

lemma resetFrom_eq:
  "length a = n \<Longrightarrow> i \<le> n \<Longrightarrow> resetFrom i n a = take i a @ replicate (n - i) Pending"
proof (induction i n a rule: resetFrom.induct)
  case (1 i n a)
  show ?case
  proof (cases "i < n")
    case False
    with "1.prems" show ?thesis by (simp add: resetFrom.simps)
  next
    case True
    have "resetFrom i n a = resetFrom (Suc i) n (a[i := Pending])"
      using True "1.prems" by (subst resetFrom.simps) simp
    also have "\<dots> = take (Suc i) (a[i := Pending]) @ replicate (n - Suc i) Pending"
      using "1.IH" [OF True] True "1.prems" by simp
    also have "\<dots> = take i a @ replicate (n - i) Pending"
      using True "1.prems"
      by (simp add: take_Suc_conv_app_nth replicate_append_same flip: replicate_Suc Suc_diff_Suc)
    finally show ?thesis .
  qed
qed


lemma wellFormed_session: "wellFormed (session ks text)"
  by (simp add: wellFormed_def session_def loadText_def loadConfig_def initial_def)

lemma wellFormed_restart: "wellFormed st \<Longrightarrow> wellFormed (restart st)"
  by (simp add: wellFormed_def restart_def)

lemma length_clampInput: "length (clampInput orig s) \<le> length orig"
  by (simp add: clampInput_def)

lemma stateOf_not_Pending: "Pending \<notin> set (map (\<lambda>(t, e). stateOf t e) ps)"
  by (auto simp: stateOf_def split: if_splits)

lemma wellFormed_forward:
  assumes wf: "wellFormed st" and lt: "length (typedText st) < length input"
    and le: "length input \<le> length (originalText st)"
  shows "wellFormed ((typeForward (drop (length (typedText st)) input) (length (typedText st)) st)
           \<lparr>typedText := input\<rparr>)"
proof -
  let ?k = "length (typedText st)" and ?m = "length input" and ?n = "length (originalText st)"
  let ?mid = "map (\<lambda>(t, e). stateOf t e) (zip (drop ?k input) (drop ?k (originalText st)))"
  from wf have len: "length (charStates st) = ?n"
    and dr: "drop ?k (charStates st) = replicate (?n - ?k) Pending"
    and tk: "Pending \<notin> set (take ?k (charStates st))"
    by (simp_all add: wellFormed_def)
  have cs: "charStates (typeForward (drop ?k input) ?k st) =
      take ?k (charStates st) @ ?mid @ drop ?m (charStates st)"
    using lt by (simp add: typeForward_charStates [OF len])
  have lmid: "length ?mid = ?m - ?k"
    using le by simp
  have ltk: "length (take ?k (charStates st)) = ?k"
    using lt le len by simp
  have dm: "drop ?m (charStates st) = replicate (?n - ?m) Pending"
  proof -
    have "drop ?m (charStates st) = drop (?m - ?k) (drop ?k (charStates st))"
      using lt by simp
    also have "\<dots> = replicate (?n - ?m) Pending"
      using lt by (simp add: dr)
    finally show ?thesis .
  qed
  have "take ?m (take ?k (charStates st) @ ?mid @ drop ?m (charStates st)) =
      take ?k (charStates st) @ ?mid"
    using lt ltk lmid by simp
  moreover have "drop ?m (take ?k (charStates st) @ ?mid @ drop ?m (charStates st)) =
      drop ?m (charStates st)"
    using lt ltk lmid by simp
  ultimately show ?thesis
    using le len lt tk stateOf_not_Pending [of "zip (drop ?k input) (drop ?k (originalText st))"]
    by (simp add: wellFormed_def cs dm)
qed

lemma wellFormed_backward:
  assumes wf: "wellFormed st" and lt: "length input < length (typedText st)"
  shows "wellFormed (st\<lparr>typedText := input,
           charStates := resetFrom (length input) (length (originalText st)) (charStates st)\<rparr>)"
proof -
  from wf have len: "length (charStates st) = length (originalText st)"
    and le: "length (typedText st) \<le> length (originalText st)"
    and tk: "Pending \<notin> set (take (length (typedText st)) (charStates st))"
    by (simp_all add: wellFormed_def)
  have r: "resetFrom (length input) (length (originalText st)) (charStates st) =
      take (length input) (charStates st) @
      replicate (length (originalText st) - length input) Pending"
    using lt le by (intro resetFrom_eq [OF len]) simp
  have "set (take (length input) (charStates st)) \<subseteq> set (take (length (typedText st)) (charStates st))"
    using lt by (intro set_take_subset_set_take) simp
  with tk have "Pending \<notin> set (take (length input) (charStates st))"
    by blast
  then show ?thesis
    using lt le len by (simp add: wellFormed_def r)
qed

lemma handleInput_unfold:
  fixes now v st
  defines "filtered \<equiv> filterInput (availableKeysSet st) v"
  defines "input \<equiv> clampInput (originalText st) filtered"
  defines "st3 \<equiv> (if startTime st = None \<and> length filtered > 0
      then st\<lparr>startTime := Some now\<rparr> else st)\<lparr>hiddenInputValue := input\<rparr>"
  shows "handleInput now v st =
     (if length input > length (typedText st)
      then (typeForward (drop (length (typedText st)) input) (length (typedText st)) st3)
             \<lparr>typedText := input\<rparr>
      else if length input < length (typedText st)
      then st3\<lparr>typedText := input,
               charStates := resetFrom (length input) (length (originalText st)) (charStates st)\<rparr>
      else st3)"
  by (simp add: handleInput_def Let_def filtered_def input_def st3_def)

lemma wellFormed_cong:
  "originalText a = originalText b \<Longrightarrow> typedText a = typedText b \<Longrightarrow>
   charStates a = charStates b \<Longrightarrow> wellFormed a = wellFormed b"
  by (simp add: wellFormed_def)

lemma wellFormed_handleInput:
  assumes wf: "wellFormed st"
  shows "wellFormed (handleInput now v st)"
proof -
  define filtered where "filtered = filterInput (availableKeysSet st) v"
  define input where "input = clampInput (originalText st) filtered"
  define st3 where "st3 = (if startTime st = None \<and> length filtered > 0
      then st\<lparr>startTime := Some now\<rparr> else st)\<lparr>hiddenInputValue := input\<rparr>"
  have f3: "originalText st3 = originalText st" "typedText st3 = typedText st"
    "charStates st3 = charStates st"
    by (simp_all add: st3_def)
  have wf3: "wellFormed st3"
    using wf wellFormed_cong [of st3 st] f3 by simp
  have le: "length input \<le> length (originalText st3)"
    by (simp add: input_def f3 length_clampInput)
  have h: "handleInput now v st =
     (if length input > length (typedText st)
      then (typeForward (drop (length (typedText st)) input) (length (typedText st)) st3)
             \<lparr>typedText := input\<rparr>
      else if length input < length (typedText st)
      then st3\<lparr>typedText := input,
               charStates := resetFrom (length input) (length (originalText st)) (charStates st)\<rparr>
      else st3)"
    unfolding st3_def input_def filtered_def by (rule handleInput_unfold)
  show ?thesis
    unfolding h
    using wellFormed_forward [OF wf3 _ le] wellFormed_backward [OF wf3, of input] wf3
    by (simp add: f3)
qed

lemma wellFormed_run: "wellFormed st \<Longrightarrow> wellFormed (run es st)"
proof (induction es arbitrary: st)
  case Nil
  then show ?case by simp
next
  case (Cons e es)
  then show ?case
    by (cases e) (simp_all add: wellFormed_handleInput wellFormed_restart)
qed

lemma wellFormed_count:
  assumes "wellFormed st"
  shows "length (typedText st) = length (filter (\<lambda>s. s \<noteq> Pending) (charStates st))"
proof -
  let ?k = "length (typedText st)"
  have "filter (\<lambda>s. s \<noteq> Pending) (charStates st) =
      filter (\<lambda>s. s \<noteq> Pending) (take ?k (charStates st)) @
      filter (\<lambda>s. s \<noteq> Pending) (drop ?k (charStates st))"
    by (metis append_take_drop_id filter_append)
  moreover have "filter (\<lambda>s. s \<noteq> Pending) (take ?k (charStates st)) = take ?k (charStates st)"
    using assms by (intro filter_True) (auto simp: wellFormed_def)
  moreover have "filter (\<lambda>s. s \<noteq> Pending) (drop ?k (charStates st)) = []"
    using assms by (simp add: wellFormed_def)
  ultimately show ?thesis
    using assms by (simp add: wellFormed_def)
qed

section \<open>Typed prefix and position states\<close>

text \<open>
  C1. For every reference text, every configuration of available keys and every sequence
  of events (input events with any textarea value, so forward typing, deletion and input
  beyond the end of the text, and restarts), after the events the length of \<open>typedText\<close>
  equals the number of entries of \<open>charStates\<close> that are not pending. The sequence is
  arbitrary, so this holds after each event.
\<close>

theorem typedText_length_counts_non_pending:
  "length (typedText (run es (session availableKeys text))) =
   length (filter (\<lambda>s. s \<noteq> Pending) (charStates (run es (session availableKeys text))))"
  by (rule wellFormed_count) (rule wellFormed_run, rule wellFormed_session)

section \<open>Evaluating concrete sessions\<close>

lemmas session_simps = session_def loadText_def loadConfig_def initial_def handleInput_def
  filterInput_def clampInput_def trimEnd_def isWhiteSpace_def arraySet_def Let_def

lemma ab_example:
  "run [Input t1 ''a'', Input t2 ''ax'', Input t3 ''a'', Input t4 ''ab''] (session [] ''ab'') =
   \<lparr>originalText = ''ab'', typedText = ''ab'', charStates = [Correct, Correct],
    startTime = Some t1, totalErrors = 1, totalInputs = 3, availableKeysSet = {},
    hiddenInputValue = ''ab''\<rparr>"
  by (simp add: session_simps resetFrom.simps)

lemma cat_examples:
  "run [Input t1 ''c'', Input t2 ''ca''] (session [] ''cat'') =
   \<lparr>originalText = ''cat'', typedText = ''ca'', charStates = [Correct, Correct, Pending],
    startTime = Some t1, totalErrors = 0, totalInputs = 2, availableKeysSet = {},
    hiddenInputValue = ''ca''\<rparr>"
  "run [Input t1 ''c'', Input t2 ''ca'', Input t3 ''cat''] (session [] ''cat'') =
   \<lparr>originalText = ''cat'', typedText = ''cat'', charStates = [Correct, Correct, Correct],
    startTime = Some t1, totalErrors = 0, totalInputs = 3, availableKeysSet = {},
    hiddenInputValue = ''cat''\<rparr>"
  "run [Input t1 ''c'', Input t2 ''ca'', Input t4 ''cats''] (session [] ''cat'') =
   \<lparr>originalText = ''cat'', typedText = ''cat'', charStates = [Correct, Correct, Correct],
    startTime = Some t1, totalErrors = 0, totalInputs = 3, availableKeysSet = {},
    hiddenInputValue = ''cat''\<rparr>"
  "run [Input t1 ''c'', Input t2 ''ca'', Input t3 ''ca ''] (session [] ''cat'') =
   \<lparr>originalText = ''cat'', typedText = ''ca '', charStates = [Correct, Correct, Incorrect],
    startTime = Some t1, totalErrors = 1, totalInputs = 3, availableKeysSet = {},
    hiddenInputValue = ''ca ''\<rparr>"
  by (simp_all add: session_simps)

section \<open>Completion\<close>

lemma rightTrimmedLength_zero: "rightTrimmedLength s = 0 \<longleftrightarrow> (\<forall>c \<in> set s. isWhiteSpace c)"
  by (induction s) auto

lemma length_trimEnd: "length (trimEnd s) = rightTrimmedLength s"
proof (induction s)
  case Nil
  then show ?case by (simp add: trimEnd_def)
next
  case (Cons c cs)
  show ?case
  proof (cases "\<forall>x \<in> set cs. isWhiteSpace x")
    case True
    then have "dropWhile isWhiteSpace (rev cs @ [c]) = dropWhile isWhiteSpace [c]"
      by (intro dropWhile_append2) simp
    moreover have "rightTrimmedLength cs = 0"
      using True by (simp add: rightTrimmedLength_zero)
    ultimately show ?thesis
      by (simp add: trimEnd_def)
  next
    case False
    then obtain x where x: "x \<in> set (rev cs)" "\<not> isWhiteSpace x"
      by auto
    have "dropWhile isWhiteSpace (rev cs @ [c]) = dropWhile isWhiteSpace (rev cs) @ [c]"
      using x by (rule dropWhile_append1)
    moreover have "rightTrimmedLength cs \<noteq> 0"
      using False by (simp add: rightTrimmedLength_zero)
    ultimately show ?thesis
      using Cons.IH by (simp add: trimEnd_def)
  qed
qed

lemma trimEnd_parts:
  "s = trimEnd s @ rev (takeWhile isWhiteSpace (rev s))"
  "list_all isWhiteSpace (rev (takeWhile isWhiteSpace (rev s)))"
  "\<not> (trimEnd s \<noteq> [] \<and> isWhiteSpace (last (trimEnd s)))"
proof -
  have "trimEnd s @ rev (takeWhile isWhiteSpace (rev s)) =
      rev (takeWhile isWhiteSpace (rev s) @ dropWhile isWhiteSpace (rev s))"
    unfolding trimEnd_def by (simp only: rev_append)
  also have "\<dots> = s"
    by (simp only: takeWhile_dropWhile_id rev_rev_ident)
  finally show "s = trimEnd s @ rev (takeWhile isWhiteSpace (rev s))"
    by (rule sym)
  show "list_all isWhiteSpace (rev (takeWhile isWhiteSpace (rev s)))"
    by (auto simp: list_all_iff dest: set_takeWhileD)
  show "\<not> (trimEnd s \<noteq> [] \<and> isWhiteSpace (last (trimEnd s)))"
    using hd_dropWhile [of isWhiteSpace "rev s"]
    by (auto simp: trimEnd_def last_rev)
qed

text \<open>
  C2. \<open>renderText\<close> shows the completion screen exactly when the right-trimmed length of
  the typed text equals the right-trimmed length of the reference text, where
  right-trimming removes exactly the trailing white space: \<open>trimEnd s\<close> is \<open>s\<close> without a
  last part of white space only, and does not end in white space itself. For the
  reference text "cat": after typing "c", "ca" the screen is not shown; after "cat" it
  is; an input "cats" is cut to "cat" and shows it as well. A typed space at the end does
  not count: "ca" followed by a space has three characters and does not complete; and a
  reference text loaded with white space at its end is completed by "cat".
\<close>

theorem completion_predicate:
  "(renderText st = CompletionScreen) = isComplete (originalText st) (typedText st) \<and>
   length (trimEnd s) = rightTrimmedLength s \<and>
   (\<exists>w. s = trimEnd s @ w \<and> list_all isWhiteSpace w) \<and>
   \<not> (trimEnd s \<noteq> [] \<and> isWhiteSpace (last (trimEnd s))) \<and>
   renderText (run [Input t1 ''c'', Input t2 ''ca''] (session [] ''cat'')) \<noteq> CompletionScreen \<and>
   renderText (run [Input t1 ''c'', Input t2 ''ca'', Input t3 ''cat''] (session [] ''cat''))
     = CompletionScreen \<and>
   typedText (run [Input t1 ''c'', Input t2 ''ca'', Input t4 ''cats''] (session [] ''cat''))
     = ''cat'' \<and>
   renderText (run [Input t1 ''c'', Input t2 ''ca'', Input t4 ''cats''] (session [] ''cat''))
     = CompletionScreen \<and>
   typedText (run [Input t1 ''c'', Input t2 ''ca'', Input t3 ''ca ''] (session [] ''cat''))
     = ''ca '' \<and>
   renderText (run [Input t1 ''c'', Input t2 ''ca'', Input t3 ''ca ''] (session [] ''cat''))
     \<noteq> CompletionScreen \<and>
   originalText (session [] (''cat '' @ [CHR 0x0A])) = ''cat'' \<and>
   renderText (run [Input t1 ''c'', Input t2 ''ca'', Input t3 ''cat'']
     (session [] (''cat '' @ [CHR 0x0A]))) = CompletionScreen"
proof -
  have general: "(renderText st = CompletionScreen) = isComplete (originalText st) (typedText st)"
    by (simp add: renderText_def isComplete_def Let_def length_trimEnd)
  have parts: "\<exists>w. s = trimEnd s @ w \<and> list_all isWhiteSpace w"
    using trimEnd_parts(1,2) [of s] by blast
  have examples:
   "renderText (run [Input t1 ''c'', Input t2 ''ca''] (session [] ''cat'')) \<noteq> CompletionScreen"
   "renderText (run [Input t1 ''c'', Input t2 ''ca'', Input t3 ''cat''] (session [] ''cat''))
     = CompletionScreen"
   "typedText (run [Input t1 ''c'', Input t2 ''ca'', Input t4 ''cats''] (session [] ''cat''))
     = ''cat''"
   "renderText (run [Input t1 ''c'', Input t2 ''ca'', Input t4 ''cats''] (session [] ''cat''))
     = CompletionScreen"
   "typedText (run [Input t1 ''c'', Input t2 ''ca'', Input t3 ''ca ''] (session [] ''cat''))
     = ''ca ''"
   "renderText (run [Input t1 ''c'', Input t2 ''ca'', Input t3 ''ca ''] (session [] ''cat''))
     \<noteq> CompletionScreen"
    unfolding cat_examples
    by (simp_all add: renderText_def Let_def trimEnd_def isWhiteSpace_def)
  have trailing:
   "originalText (session [] (''cat '' @ [CHR 0x0A])) = ''cat''"
   "renderText (run [Input t1 ''c'', Input t2 ''ca'', Input t3 ''cat'']
     (session [] (''cat '' @ [CHR 0x0A]))) = CompletionScreen"
    by (simp_all add: session_simps renderText_def)
  show ?thesis
    using general length_trimEnd [of s] parts trimEnd_parts(3) [of s] examples trailing
    by blast
qed

section \<open>Counters\<close>

lemma handleInput_totalErrors:
  fixes now v st
  defines "input \<equiv> clampInput (originalText st) (filterInput (availableKeysSet st) v)"
  shows "totalErrors (handleInput now v st) =
     totalErrors st +
     (if length (typedText st) < length input
      then length (filter (\<lambda>(t, e). t \<noteq> e)
             (zip (drop (length (typedText st)) input)
                  (drop (length (typedText st)) (originalText st))))
      else 0)"
  unfolding input_def by (simp add: handleInput_unfold typeForward_totalErrors)

lemma handleInput_totalInputs:
  fixes now v st
  defines "input \<equiv> clampInput (originalText st) (filterInput (availableKeysSet st) v)"
  shows "totalInputs (handleInput now v st) =
     totalInputs st + (length input - length (typedText st))"
proof -
  have "length input \<le> length (originalText st)"
    by (simp add: input_def length_clampInput)
  then have "min (length input - length (typedText st))
      (length (originalText st) - length (typedText st)) = length input - length (typedText st)"
    by simp
  then show ?thesis
    unfolding input_def by (simp add: handleInput_unfold typeForward_totalInputs)
qed

lemma handleInput_static [simp]:
  "originalText (handleInput now v st) = originalText st"
  "availableKeysSet (handleInput now v st) = availableKeysSet st"
  by (simp_all add: handleInput_unfold)

lemma run_inputs_totalErrors: "totalErrors st \<le> totalErrors (run (inputs ins) st)"
proof (induction ins arbitrary: st)
  case Nil
  then show ?case by (simp add: inputs_def)
next
  case (Cons i ins)
  obtain now v where i: "i = (now, v)" by (cases i)
  have "totalErrors st \<le> totalErrors (handleInput now v st)"
    by (simp add: handleInput_totalErrors)
  also have "\<dots> \<le> totalErrors (run (inputs ins) (handleInput now v st))"
    by (rule Cons.IH)
  finally show ?case by (simp add: inputs_def i)
qed

lemma run_inputs_totalInputs: "totalInputs st \<le> totalInputs (run (inputs ins) st)"
proof (induction ins arbitrary: st)
  case Nil
  then show ?case by (simp add: inputs_def)
next
  case (Cons i ins)
  obtain now v where i: "i = (now, v)" by (cases i)
  have "totalInputs st \<le> totalInputs (handleInput now v st)"
    by (simp add: handleInput_totalInputs)
  also have "\<dots> \<le> totalInputs (run (inputs ins) (handleInput now v st))"
    by (rule Cons.IH)
  finally show ?case by (simp add: inputs_def i)
qed

text \<open>
  C4. \<open>totalErrors\<close> (and \<open>totalInputs\<close>) never decrease along a sequence of input
  events. An input that is not longer than the typed text (a deletion, or no change of
  length) leaves both counters as they were. An input that is longer adds one to
  \<open>totalInputs\<close> for each new character and one to \<open>totalErrors\<close> for each new character
  that differs from the expected one; a single accepted keystroke \<open>c\<close> at position \<open>k\<close>
  adds one error exactly when \<open>c\<close> differs from the reference character at \<open>k\<close>.
\<close>

theorem totalErrors_non_decreasing:
  fixes now v st
  defines "input \<equiv> clampInput (originalText st) (filterInput (availableKeysSet st) v)"
  defines "k \<equiv> length (typedText st)"
  shows
    "totalErrors st \<le> totalErrors (run (inputs ins) st) \<and>
     totalInputs st \<le> totalInputs (run (inputs ins) st) \<and>
     (length input \<le> k \<longrightarrow>
        totalErrors (handleInput now v st) = totalErrors st \<and>
        totalInputs (handleInput now v st) = totalInputs st) \<and>
     (k < length input \<longrightarrow>
        totalErrors (handleInput now v st) =
          totalErrors st + length (filter (\<lambda>(t, e). t \<noteq> e)
                             (zip (drop k input) (drop k (originalText st)))) \<and>
        totalInputs (handleInput now v st) = totalInputs st + (length input - k)) \<and>
     (k < length (originalText st) \<longrightarrow>
      filterInput (availableKeysSet st) (typedText st @ [c]) = typedText st @ [c] \<longrightarrow>
        totalErrors (handleInput now (typedText st @ [c]) st) =
          totalErrors st + (if c \<noteq> originalText st ! k then 1 else 0) \<and>
        totalInputs (handleInput now (typedText st @ [c]) st) = totalInputs st + 1)"
proof -
  have single: "totalErrors (handleInput now (typedText st @ [c]) st) =
          totalErrors st + (if c \<noteq> originalText st ! k then 1 else 0) \<and>
        totalInputs (handleInput now (typedText st @ [c]) st) = totalInputs st + 1"
    if lt: "k < length (originalText st)"
      and f: "filterInput (availableKeysSet st) (typedText st @ [c]) = typedText st @ [c]"
  proof -
    have cl: "clampInput (originalText st) (typedText st @ [c]) = typedText st @ [c]"
      using lt by (simp add: clampInput_def k_def)
    have d: "drop k (originalText st) = originalText st ! k # drop (Suc k) (originalText st)"
      using lt by (simp add: Cons_nth_drop_Suc)
    show ?thesis
      using lt by (simp add: handleInput_totalErrors handleInput_totalInputs f cl d flip: k_def)
  qed
  show ?thesis
    using single
    by (simp add: run_inputs_totalErrors run_inputs_totalInputs handleInput_totalErrors
        handleInput_totalInputs input_def k_def)
qed

theorem totalErrors_non_decreasing_witness:
  "length (clampInput (originalText (handleInput 1 ''ax'' (session [] ''ab'')))
     (filterInput (availableKeysSet (handleInput 1 ''ax'' (session [] ''ab''))) ''a''))
     \<le> length (typedText (handleInput 1 ''ax'' (session [] ''ab''))) \<and>
   totalErrors (handleInput 2 ''a'' (handleInput 1 ''ax'' (session [] ''ab''))) = 1 \<and>
   totalInputs (handleInput 2 ''a'' (handleInput 1 ''ax'' (session [] ''ab''))) = 2 \<and>
   length (typedText (session [] ''ab''))
     < length (clampInput (originalText (session [] ''ab''))
         (filterInput (availableKeysSet (session [] ''ab'')) ''x'')) \<and>
   length (typedText (session [] ''ab'')) < length (originalText (session [] ''ab'')) \<and>
   filterInput (availableKeysSet (session [] ''ab'')) (typedText (session [] ''ab'') @ ''x'')
     = typedText (session [] ''ab'') @ ''x'' \<and>
   totalErrors (handleInput 1 ''x'' (session [] ''ab'')) = 1 \<and>
   totalInputs (handleInput 1 ''x'' (session [] ''ab'')) = 1"
  using totalErrors_non_decreasing
      [where st = "handleInput 1 ''ax'' (session [] ''ab'')" and v = "''a''" and now = 2
        and ins = "[]" and c = "CHR ''x''"]
    totalErrors_non_decreasing
      [where st = "session [] ''ab''" and v = "''x''" and now = 1 and ins = "[]"
        and c = "CHR ''x''"]
  by (simp add: session_simps)

section \<open>The typed prefix after an input\<close>

text \<open>
  C5, as amended. After \<open>handleInput\<close> the typed text is the input (filtered by the
  available keys and cut at the length of the reference text) whenever the length of that
  input differs from the length of the typed text; when the two lengths are equal the
  typed text is left as it was, whatever the content of the input.
\<close>

theorem typedText_after_handleInput:
  fixes now v st
  defines "input \<equiv> clampInput (originalText st) (filterInput (availableKeysSet st) v)"
  shows "typedText (handleInput now v st) =
     (if length input = length (typedText st) then typedText st else input)"
  unfolding input_def by (simp add: handleInput_unfold)

text \<open>
  C5 as stated fails: with the reference text "abc" and "ab" typed, the input "ax" has the
  length of the typed text and other content; the typed text stays "ab".
\<close>

theorem typedText_same_length_counterexample:
  "typedText (run [Input 1 ''ab'', Input 2 ''ax''] (session [] ''abc'')) = ''ab'' \<and>
   clampInput ''abc'' ''ax'' = ''ax'' \<and>
   typedText (run [Input 1 ''ab'', Input 2 ''ax''] (session [] ''abc''))
     \<noteq> clampInput ''abc'' ''ax''"
  by (simp add: session_simps)

section \<open>Accuracy\<close>

text \<open>
  C3. Once the clock has started, \<open>calculateStatistics\<close> returns statistics whose accuracy
  is \<open>((totalInputs - totalErrors) / totalInputs) * 100\<close> if \<open>totalInputs > 0\<close> and 0
  otherwise. For the reference text "ab" and the events: type "a", type "x", delete it,
  type "b", the counters end at \<open>totalInputs = 3\<close> and \<open>totalErrors = 1\<close>, the accuracy is
  \<open>(3 - 1) / 3 * 100\<close> and no error is left.
\<close>

theorem accuracy_formula:
  "(\<exists>s. calculateStatistics now (st\<lparr>startTime := Some start\<rparr>) = Some s \<and>
        stats_accuracy s =
          (if totalInputs st > 0
           then ((real (totalInputs st) - real (totalErrors st)) / real (totalInputs st)) * 100
           else 0)) \<and>
   (let st' = run [Input t1 ''a'', Input t2 ''ax'', Input t3 ''a'', Input t4 ''ab'']
                (session [] ''ab'')
    in totalInputs st' = 3 \<and> totalErrors st' = 1 \<and>
       (\<exists>s. calculateStatistics t5 st' = Some s \<and>
            stats_accuracy s = (3 - 1) / 3 * 100 \<and> stats_errorsLeft s = 0 \<and>
            stats_totalErrors s = 1))"
  unfolding ab_example by (simp add: calculateStatistics_def Let_def)

lemma errors_le_inputs_handleInput:
  assumes "totalErrors st \<le> totalInputs st"
  shows "totalErrors (handleInput now v st) \<le> totalInputs (handleInput now v st)"
proof -
  let ?input = "clampInput (originalText st) (filterInput (availableKeysSet st) v)"
  let ?k = "length (typedText st)"
  have "length (filter (\<lambda>(t, e). t \<noteq> e) (zip (drop ?k ?input) (drop ?k (originalText st))))
      \<le> length (zip (drop ?k ?input) (drop ?k (originalText st)))"
    by (rule length_filter_le)
  also have "\<dots> \<le> length ?input - ?k"
    by simp
  finally have "length (filter (\<lambda>(t, e). t \<noteq> e)
      (zip (drop ?k ?input) (drop ?k (originalText st)))) \<le> length ?input - ?k" .
  then show ?thesis
    using assms unfolding handleInput_totalErrors handleInput_totalInputs
    by (cases "?k < length ?input") simp_all
qed

lemma errors_le_inputs_run:
  "totalErrors st \<le> totalInputs st \<Longrightarrow> totalErrors (run es st) \<le> totalInputs (run es st)"
proof (induction es arbitrary: st)
  case Nil
  then show ?case by simp
next
  case (Cons e es)
  show ?case
  proof (cases e)
    case (Input now v)
    then show ?thesis
      using Cons.IH [OF errors_le_inputs_handleInput [OF Cons.prems]] by simp
  next
    case Restart
    then show ?thesis
      using Cons.IH [of "restart st"] by (simp add: restart_def)
  qed
qed

lemma accuracy_bounds:
  assumes "e \<le> (n::nat)"
  shows "0 \<le> (if n > 0 then ((real n - real e) / real n) * 100 else 0)"
    and "(if n > 0 then ((real n - real e) / real n) * 100 else 0) \<le> 100"
proof -
  show "0 \<le> (if n > 0 then ((real n - real e) / real n) * 100 else 0)"
    using assms by simp
  have "(real n - real e) / real n \<le> 1" if "n > 0"
    using that assms by (simp add: field_simps)
  then have "((real n - real e) / real n) * 100 \<le> 1 * 100" if "n > 0"
    using that by (intro mult_right_mono) simp_all
  then show "(if n > 0 then ((real n - real e) / real n) * 100 else 0) \<le> 100"
    by simp
qed

text \<open>
  C10. After every sequence of input events and restarts, \<open>totalErrors\<close> is at most
  \<open>totalInputs\<close>; so the accuracy of the live snapshot and that of the final statistics
  lie between 0 and 100.
\<close>

theorem errors_at_most_inputs:
  fixes es availableKeys reference now
  defines "st \<equiv> run es (session availableKeys reference)"
  shows "totalErrors st \<le> totalInputs st \<and>
     0 \<le> accuracy (calculateRealtimeStats now st) \<and>
     accuracy (calculateRealtimeStats now st) \<le> 100 \<and>
     (\<forall>s. calculateStatistics now st = Some s \<longrightarrow>
          0 \<le> stats_accuracy s \<and> stats_accuracy s \<le> 100)"
proof -
  have le: "totalErrors st \<le> totalInputs st"
    unfolding st_def
    by (rule errors_le_inputs_run) (simp add: session_def loadText_def loadConfig_def initial_def)
  have rt: "0 \<le> accuracy (calculateRealtimeStats now st) \<and>
     accuracy (calculateRealtimeStats now st) \<le> 100"
    using accuracy_bounds [OF le]
    by (cases "startTime st") (simp_all add: calculateRealtimeStats_def Let_def)
  have fin: "0 \<le> stats_accuracy s \<and> stats_accuracy s \<le> 100"
    if "calculateStatistics now st = Some s" for s
    using that accuracy_bounds [OF le]
    by (cases "startTime st") (auto simp: calculateStatistics_def Let_def)
  show ?thesis
    using le rt fin by blast
qed

theorem errors_at_most_inputs_witness:
  "calculateStatistics 60000
     (run [Input 0 ''a'', Input 1 ''ax'', Input 2 ''a'', Input 3 ''ab''] (session [] ''ab''))
   = Some \<lparr>stats_totalErrors = 1, stats_errorsLeft = 0, stats_totalTime = 60,
            stats_accuracy = 200 / 3, stats_speed = 1\<rparr> \<and>
   (\<exists>s. calculateStatistics 60000
          (run [Input 0 ''a'', Input 1 ''ax'', Input 2 ''a'', Input 3 ''ab''] (session [] ''ab''))
        = Some s \<and> 0 \<le> stats_accuracy s \<and> stats_accuracy s \<le> 100)"
proof -
  have c: "calculateStatistics 60000
     (run [Input 0 ''a'', Input 1 ''ax'', Input 2 ''a'', Input 3 ''ab''] (session [] ''ab''))
   = Some \<lparr>stats_totalErrors = 1, stats_errorsLeft = 0, stats_totalTime = 60,
            stats_accuracy = 200 / 3, stats_speed = 1\<rparr>"
    unfolding ab_example
    by (simp add: calculateStatistics_def Let_def trim_def trimStart_def trimEnd_def
        isWhiteSpace_def splitWhitespace_def)
  show ?thesis
    using c errors_at_most_inputs
      [where now = 60000 and availableKeys = "[]" and reference = "''ab''"
        and es = "[Input 0 ''a'', Input 1 ''ax'', Input 2 ''a'', Input 3 ''ab'']"]
    by blast
qed

section \<open>The live snapshot before typing starts\<close>

text \<open>
  C8. While \<open>startTime\<close> is unset, \<open>calculateRealtimeStats\<close> returns zero for speed,
  accuracy, time, errors and errors left, with the two character counts; the result is
  this record of constants, with no arithmetic on the clock. This is the case in every
  freshly loaded session and after every restart.
\<close>

theorem realtime_before_start:
  "(startTime st = None \<longrightarrow>
      calculateRealtimeStats now st =
        \<lparr>speed = 0, accuracy = 0, time = 0, errors = 0, errorsLeft = 0,
         chars = \<lparr>chars_typed = length (typedText st),
                  chars_total = length (originalText st)\<rparr>\<rparr>) \<and>
   calculateRealtimeStats now (session availableKeys reference) =
     \<lparr>speed = 0, accuracy = 0, time = 0, errors = 0, errorsLeft = 0,
      chars = \<lparr>chars_typed = 0, chars_total = length (trimEnd reference)\<rparr>\<rparr> \<and>
   calculateRealtimeStats now (restart st) =
     \<lparr>speed = 0, accuracy = 0, time = 0, errors = 0, errorsLeft = 0,
      chars = \<lparr>chars_typed = 0, chars_total = length (originalText st)\<rparr>\<rparr>"
  by (simp add: calculateRealtimeStats_def session_def loadText_def loadConfig_def
      initial_def restart_def)

theorem realtime_before_start_witness:
  "startTime (session [] ''cat'') = None \<and>
   calculateRealtimeStats 5 (session [] ''cat'') =
     \<lparr>speed = 0, accuracy = 0, time = 0, errors = 0, errorsLeft = 0,
      chars = \<lparr>chars_typed = 0, chars_total = 3\<rparr>\<rparr>"
  using realtime_before_start [of "session [] ''cat''" 5]
  by (simp add: session_simps)

section \<open>Keys that are always available\<close>

lemma toLowerCase_names:
  "toLowerCase ''Delete'' = ''delete''"
  by code_simp

text \<open>
  C6, as amended. Whatever the configured set of keys, \<open>isKeyAvailable\<close> is true for the
  space and the no-break space, the comma, the period, the backspace character and the
  key name "Backspace", the line feed and the carriage return and the key names "Enter"
  and "Return", and for every key whose lower-cased name is "space", "comma", "dot",
  "backspace" or "enter"; the input filter keeps space, comma, period and line feed.
  The key name "Delete" is not among these keys: it is available exactly when no key is
  configured or the configured keys contain "delete".
\<close>

theorem always_available_keys:
  "isKeyAvailable keys '' '' \<and> isKeyAvailable keys [CHR 0xA0] \<and>
   isKeyAvailable keys '','' \<and> isKeyAvailable keys ''.'' \<and>
   isKeyAvailable keys ''Backspace'' \<and> isKeyAvailable keys [CHR 0x08] \<and>
   isKeyAvailable keys ''Enter'' \<and> isKeyAvailable keys ''Return'' \<and>
   isKeyAvailable keys [CHR 0x0A] \<and> isKeyAvailable keys [CHR 0x0D] \<and>
   (toLowerCase key = ''space'' \<or> toLowerCase key = ''comma'' \<or> toLowerCase key = ''dot'' \<or>
    toLowerCase key = ''backspace'' \<or> toLowerCase key = ''enter''
      \<longrightarrow> isKeyAvailable keys key) \<and>
   filterInput keys [CHR '' '', CHR '','', CHR ''.'', CHR 0x0A] = [CHR '' '', CHR '','', CHR ''.'', CHR 0x0A] \<and>
   isKeyAvailable keys ''Delete'' = (keys = {} \<or> ''delete'' \<in> keys)"
proof -
  have named: "isKeyAvailable keys key"
    if "toLowerCase key = ''space'' \<or> toLowerCase key = ''comma'' \<or> toLowerCase key = ''dot'' \<or>
    toLowerCase key = ''backspace'' \<or> toLowerCase key = ''enter''"
    using that unfolding isKeyAvailable_def Let_def by presburger
  have del: "isKeyAvailable keys ''Delete'' = (keys = {} \<or> ''delete'' \<in> keys)"
    by (auto simp: isKeyAvailable_def toLowerCase_names)
  have fixed: "isKeyAvailable keys '' ''" "isKeyAvailable keys [CHR 0xA0]"
   "isKeyAvailable keys '',''" "isKeyAvailable keys ''.''"
   "isKeyAvailable keys ''Backspace''" "isKeyAvailable keys [CHR 0x08]"
   "isKeyAvailable keys ''Enter''" "isKeyAvailable keys ''Return''"
   "isKeyAvailable keys [CHR 0x0A]" "isKeyAvailable keys [CHR 0x0D]"
    by (simp_all add: isKeyAvailable_def)
  have filt: "filterInput keys [CHR '' '', CHR '','', CHR ''.'', CHR 0x0A] = [CHR '' '', CHR '','', CHR ''.'', CHR 0x0A]"
    using fixed by (simp add: filterInput_def)
  show ?thesis
    using named del fixed filt by blast
qed

theorem always_available_keys_witness:
  "toLowerCase ''BACKSPACE'' = ''backspace'' \<and> isKeyAvailable {''a''} ''BACKSPACE''"
proof -
  have l: "toLowerCase ''BACKSPACE'' = ''backspace''" by code_simp
  show ?thesis
    using l always_available_keys [of "{''a''}" "''BACKSPACE''"] by blast
qed

text \<open>
  C6 as stated fails for the key name "Delete": with the keys a, s, d, f configured it is
  not available.
\<close>

theorem delete_key_counterexample:
  "\<not> isKeyAvailable {''a'', ''s'', ''d'', ''f''} ''Delete''"
  by (simp add: isKeyAvailable_def toLowerCase_names)

section \<open>Words and speed\<close>

lemma tokens_Nil [simp]: "tokens [] = []"
  by (simp add: tokens.simps)

lemma tokens_unfold:
  "tokens s =
     (if takeWhile (\<lambda>x. \<not> isWhiteSpace x) s = [] then []
      else [takeWhile (\<lambda>x. \<not> isWhiteSpace x) s])
     @ tokens (dropWhile (\<lambda>x. \<not> isWhiteSpace x) s)"
proof (cases s)
  case Nil
  then show ?thesis by simp
next
  case (Cons c cs)
  show ?thesis
  proof (cases "isWhiteSpace c")
    case True
    then show ?thesis using Cons by simp
  next
    case False
    then show ?thesis using Cons by (subst tokens.simps) simp
  qed
qed

lemma tokens_dropWhile: "tokens (dropWhile isWhiteSpace s) = tokens s"
proof -
  have "dropWhile isWhiteSpace (dropWhile isWhiteSpace s) = dropWhile isWhiteSpace s"
    by (simp add: dropWhile_idem)
  then show ?thesis
    by (subst tokens.simps, subst (2) tokens.simps) simp
qed

lemma splitWhitespaceFrom_tokens:
  "filter (\<lambda>word. length word > 0) (splitWhitespaceFrom cur s) =
     (if cur @ takeWhile (\<lambda>x. \<not> isWhiteSpace x) s = [] then []
      else [cur @ takeWhile (\<lambda>x. \<not> isWhiteSpace x) s])
     @ tokens (dropWhile (\<lambda>x. \<not> isWhiteSpace x) s)"
proof (induction cur s rule: splitWhitespaceFrom.induct)
  case (1 cur)
  then show ?case by simp
next
  case (2 cur c cs)
  show ?case
  proof (cases "isWhiteSpace c")
    case True
    have "tokens (c # cs) = tokens (dropWhile isWhiteSpace cs)"
      using True tokens_dropWhile [of "c # cs"] by simp
    also have "\<dots> = filter (\<lambda>word. length word > 0)
        (splitWhitespaceFrom [] (dropWhile isWhiteSpace cs))"
      using "2.IH"(1) [OF True] tokens_unfold [of "dropWhile isWhiteSpace cs"] by simp
    finally show ?thesis
      using True by simp
  next
    case False
    then show ?thesis
      using "2.IH"(2) [OF False] by simp
  qed
qed

lemma splitWhitespace_tokens:
  "filter (\<lambda>word. length word > 0) (splitWhitespace s) = tokens s"
  using splitWhitespaceFrom_tokens [of "[]" s] tokens_unfold [of s]
  by (simp add: splitWhitespace_def)

lemma words_example:
  "length (filter (\<lambda>word. length word > 0) (splitWhitespace (trim ''one two three''))) = 3"
  by (simp add: trim_def trimStart_def trimEnd_def isWhiteSpace_def splitWhitespace_def)

text \<open>
  C7. Once the clock has started, the speed of the final statistics is the number of
  white-space-delimited non-empty tokens of the trimmed reference text divided by the
  elapsed minutes when these are positive, and 0 otherwise; the typed text plays no part.
  For the reference text "one two three" and 60 elapsed seconds the speed is 3.
\<close>

theorem speed_formula:
  "(\<exists>s. calculateStatistics now (st\<lparr>startTime := Some start\<rparr>) = Some s \<and>
        stats_speed s =
          (let elapsedMinutes = real_of_int (now - start) / 1000 / 60
           in if elapsedMinutes > 0
              then real (length (tokens (trim (originalText st)))) / elapsedMinutes else 0)) \<and>
   (\<exists>s. calculateStatistics (start + 60000)
          (st\<lparr>originalText := ''one two three'', startTime := Some start\<rparr>) = Some s \<and>
        stats_speed s = 3)"
proof -
  have "\<exists>s. calculateStatistics (start + 60000)
          (st\<lparr>originalText := ''one two three'', startTime := Some start\<rparr>) = Some s \<and>
        stats_speed s = 3"
    using words_example by (simp add: calculateStatistics_def Let_def)
  moreover have "\<exists>s. calculateStatistics now (st\<lparr>startTime := Some start\<rparr>) = Some s \<and>
        stats_speed s =
          (let elapsedMinutes = real_of_int (now - start) / 1000 / 60
           in if elapsedMinutes > 0
              then real (length (tokens (trim (originalText st)))) / elapsedMinutes else 0)"
    using splitWhitespace_tokens [of "trim (originalText st)"]
    by (simp add: calculateStatistics_def Let_def)
  ultimately show ?thesis by blast
qed

section \<open>Digits and decimal values\<close>




lemma digitsOf_not_Nil [simp]: "digitsOf n \<noteq> []"
  by (subst digitsOf.simps) simp




lemma decimalValue_single [simp]: "decimalValue [c] = digitValue c"
  by (simp add: decimalValue_def)









section \<open>Inclusion, lines and lines without labels\<close>






lemma splitLines_not_Nil [simp]: "splitLines s \<noteq> []"
  by (induction s) (auto split: list.splits)









section \<open>Matching the lines of the report\<close>





















section \<open>The report round trip\<close>


text \<open>
  The statistics that a session can produce stay in that range. Values of \<open>Date.now()\<close>
  lie within 8 640 000 000 000 000 milliseconds of the epoch, a string has fewer than
  \<open>2^53\<close> characters, and a counter that is incremented by one does not pass \<open>2^53\<close>.
\<close>

lemma run_originalText [simp]: "originalText (run es st) = originalText st"
proof (induction es arbitrary: st)
  case Nil
  then show ?case by simp
next
  case (Cons e es)
  then show ?case
    by (cases e) (simp_all add: restart_def)
qed







text \<open>Some numbers as they are printed and rounded.\<close>

lemma toFixed2_examples:
  "toFixed2 (10 ^ 21) = ''1e+21''" "toFixed2 100 = ''100.00''" "toFixed2 3 = ''3.00''"
  by (simp_all add: toFixed2_def Let_def numberToString_def exponentForm_def
      stripTrailingZeros_def digitsOf.simps digitChar_def)





text \<open>
  The accuracy pattern allows no white space before the percent sign: the line is not
  read.
\<close>

lemma accuracy_with_space_not_read: "parseLine ''Accuracy: 50 %'' stats = stats"
  by (simp add: parseLine_def startsWith_def matchFloatAt_def isWhiteSpace_def isDigit_def
      isDigitOrDot_def Let_def)

end
